theory Spec2Isabelle
  imports Main "HOL-Library.Word"
begin

section \<open>Data model\<close>

text \<open>
  The program is a single Go file, \<^verbatim>\<open>main.go\<close>. Its \<^verbatim>\<open>int\<close> is the 64-bit two's
  complement integer of the 64-bit Go targets: \<open>+\<close> wraps around and \<open>>\<close> compares the
  signed values, which the model reads with \<open>sint\<close>. A \<^verbatim>\<open>time.Time\<close> is an instant on a
  linear time line; the model takes it as an integer count of clock ticks.
\<close>

type_synonym gint = "64 word"
type_synonym time = int

record Expense =
  ID :: gint
  Description :: string
  Amount :: gint
  CreatedAt :: time
  UpdatedAt :: time

section \<open>Persistence: \<^verbatim>\<open>loadExpenses\<close> and \<^verbatim>\<open>saveExpenses\<close>\<close>

text \<open>
  A Go slice is nil or holds a sequence of elements, and a slice with no element need
  not be nil: \<^verbatim>\<open>[]Expense{}\<close> and the result of \<^verbatim>\<open>append\<close> are not. The two differ
  in what is written for them, \<^verbatim>\<open>null\<close> for the nil slice and \<^verbatim>\<open>[]\<close> for the empty one.
\<close>

datatype 'a slice = NilSlice | Slice "'a list"

fun elems :: "'a slice \<Rightarrow> 'a list" where
  "elems NilSlice = []"
| "elems (Slice xs) = xs"

text \<open>
  The file \<^verbatim>\<open>expense.json\<close> is absent, present but unreadable, or holds bytes.
  \<^verbatim>\<open>os.WriteFile\<close> opens the file, truncating it, and then writes: it succeeds, or it
  fails to open the file and leaves it as it was, or it fails after the open and leaves
  the bytes written so far. The field \<open>writing\<close> says which of these the next write
  does.

  \<^verbatim>\<open>json.Unmarshal\<close> and \<^verbatim>\<open>json.MarshalIndent\<close> belong to Go's standard library, not
  to this program; they are parameters of the model (\<open>codec\<close>), each returning \<open>None\<close>
  where the library returns an error. Decoding starts from the nil slice of
  \<^verbatim>\<open>var expenses []Expense\<close>, so a codec may return it, as the library does for the
  document \<^verbatim>\<open>null\<close>.
\<close>

datatype disk = Absent | Unreadable | Data string

datatype writeResult = WriteOk | OpenFails | WriteFails nat

record fsys =
  disk :: disk
  writing :: writeResult

record codec =
  marshal :: "Expense slice \<Rightarrow> string option"
  unmarshal :: "string \<Rightarrow> Expense slice option"

datatype error = IOError | MalformedStore | MarshalError

definition loadExpenses :: "codec \<Rightarrow> fsys \<Rightarrow> error + Expense slice" where
  "loadExpenses c fs =
     (case disk fs of
        Absent \<Rightarrow> Inr (Slice [])
      | Unreadable \<Rightarrow> Inl IOError
      | Data d \<Rightarrow>
          (case unmarshal c d of
             None \<Rightarrow> Inl MalformedStore
           | Some expenses \<Rightarrow> Inr expenses))"

definition saveExpenses :: "codec \<Rightarrow> Expense slice \<Rightarrow> fsys \<Rightarrow> error option \<times> fsys" where
  "saveExpenses c expenses fs =
     (case marshal c expenses of
        None \<Rightarrow> (Some MarshalError, fs)
      | Some d \<Rightarrow>
          (case writing fs of
             WriteOk \<Rightarrow> (None, fs\<lparr>disk := Data d\<rparr>)
           | OpenFails \<Rightarrow> (Some IOError, fs)
           | WriteFails n \<Rightarrow> (Some IOError, fs\<lparr>disk := Data (take n d)\<rparr>)))"

section \<open>Identifier assignment: \<^verbatim>\<open>generateUniqueID\<close>\<close>

text \<open>The \<^verbatim>\<open>for ... range\<close> loop over the slice, with the running \<^verbatim>\<open>maxID\<close>.\<close>

fun maxIDLoop :: "gint \<Rightarrow> Expense list \<Rightarrow> gint" where
  "maxIDLoop maxID [] = maxID"
| "maxIDLoop maxID (expense # rest) =
     maxIDLoop (if sint (ID expense) > sint maxID then ID expense else maxID) rest"

definition generateUniqueID :: "Expense list \<Rightarrow> gint" where
  "generateUniqueID expenses = maxIDLoop 0 expenses + 1"

section \<open>The operations on the loaded collection\<close>

text \<open>
  Each handler loads the collection, changes it and saves it. The change itself, the
  lines between \<^verbatim>\<open>loadExpenses\<close> and \<^verbatim>\<open>saveExpenses\<close>, is a function of its own here,
  on the elements of the slice, so that it can be iterated. \<^verbatim>\<open>time.Now()\<close> is an input: \<^verbatim>\<open>addExpenseHandler\<close> reads the
  clock twice (\<open>t1\<close> for \<^verbatim>\<open>CreatedAt\<close>, then \<open>t2\<close> for \<^verbatim>\<open>UpdatedAt\<close>),
  \<^verbatim>\<open>updateExpenseHandler\<close> once.
\<close>

definition addExpense :: "time \<Rightarrow> time \<Rightarrow> Expense \<Rightarrow> Expense list \<Rightarrow> Expense \<times> Expense list" where
  "addExpense t1 t2 expense expenses =
     (let expense = expense\<lparr>ID := generateUniqueID expenses\<rparr>;
          expense = expense\<lparr>CreatedAt := t1\<rparr>;
          expense = expense\<lparr>UpdatedAt := t2\<rparr>
      in (expense, expenses @ [expense]))"

fun sumLoop :: "gint \<Rightarrow> Expense list \<Rightarrow> gint" where
  "sumLoop totalSum [] = totalSum"
| "sumLoop totalSum (expense # rest) = sumLoop (totalSum + Amount expense) rest"

definition summaryExpenses :: "Expense list \<Rightarrow> gint" where
  "summaryExpenses expenses = sumLoop 0 expenses"

text \<open>
  The update loop runs over the indices, writes \<^verbatim>\<open>expenses[i]\<close> in place at the first
  match and breaks; the result is the slice and \<^verbatim>\<open>found\<close>.
\<close>

function updateLoop :: "gint \<Rightarrow> Expense \<Rightarrow> time \<Rightarrow> Expense list \<Rightarrow> nat \<Rightarrow> Expense list \<times> bool" where
  "updateLoop id' updatedExpense now expenses i =
     (if i < length expenses then
        if ID (expenses ! i) = id' then
          (expenses[i := (expenses ! i)\<lparr>Description := Description updatedExpense,
                                        Amount := Amount updatedExpense,
                                        UpdatedAt := now\<rparr>], True)
        else updateLoop id' updatedExpense now expenses (Suc i)
      else (expenses, False))"
  by pat_completeness auto
termination
  by (relation "measure (\<lambda>(id', updatedExpense, now, expenses, i). length expenses - i)") auto

text \<open>
  The delete loop: at the first match, \<^verbatim>\<open>append(expenses[:i], expenses[i+1:]...)\<close>, then
  break.
\<close>

function deleteLoop :: "gint \<Rightarrow> Expense list \<Rightarrow> nat \<Rightarrow> Expense list \<times> bool" where
  "deleteLoop id' expenses i =
     (if i < length expenses then
        if ID (expenses ! i) = id' then (take i expenses @ drop (i + 1) expenses, True)
        else deleteLoop id' expenses (Suc i)
      else (expenses, False))"
  by pat_completeness auto
termination
  by (relation "measure (\<lambda>(id', expenses, i). length expenses - i)") auto

section \<open>The handlers\<close>

text \<open>
  A request reaches a handler as its method, the identifier parsed from the path
  (\<open>None\<close> when \<^verbatim>\<open>strconv.Atoi\<close> fails) and the decoded body (\<open>None\<close> when the decoder
  fails). A handler returns its response and the file system it leaves. The slice a
  handler saves is never nil: \<^verbatim>\<open>append\<close> returns a slice that is not, and so is a slice
  in which the loop has found a record.
\<close>

datatype httpMethod = GET | POST | PUT | DELETE | OtherMethod

datatype response =
    Created Expense
  | OkList "Expense slice"
  | OkTotal gint
  | NoContent
  | HttpError nat string

definition addExpenseHandler ::
  "codec \<Rightarrow> time \<Rightarrow> time \<Rightarrow> httpMethod \<Rightarrow> Expense option \<Rightarrow> fsys \<Rightarrow> response \<times> fsys" where
  "addExpenseHandler c t1 t2 m body fs =
     (if m \<noteq> POST then (HttpError 405 ''Only POST requests allowed'', fs)
      else case body of
        None \<Rightarrow> (HttpError 400 ''Invalid input'', fs)
      | Some expense \<Rightarrow>
          (case loadExpenses c fs of
             Inl err \<Rightarrow> (HttpError 500 ''Error loading expenses'', fs)
           | Inr expenses \<Rightarrow>
               (case addExpense t1 t2 expense (elems expenses) of
                  (expense, expenses) \<Rightarrow>
                    (case saveExpenses c (Slice expenses) fs of
                       (Some err, fs') \<Rightarrow> (HttpError 500 ''Error saving expense'', fs')
                     | (None, fs') \<Rightarrow> (Created expense, fs')))))"

definition listExpensesHandler :: "codec \<Rightarrow> httpMethod \<Rightarrow> fsys \<Rightarrow> response \<times> fsys" where
  "listExpensesHandler c m fs =
     (if m \<noteq> GET then (HttpError 405 ''Only GET requests allowed'', fs)
      else case loadExpenses c fs of
        Inl err \<Rightarrow> (HttpError 500 ''Error loading expenses'', fs)
      | Inr expenses \<Rightarrow> (OkList expenses, fs))"

definition summaryExpensesHandler :: "codec \<Rightarrow> httpMethod \<Rightarrow> fsys \<Rightarrow> response \<times> fsys" where
  "summaryExpensesHandler c m fs =
     (if m \<noteq> GET then (HttpError 405 ''Only GET requests allowed'', fs)
      else case loadExpenses c fs of
        Inl err \<Rightarrow> (HttpError 500 ''Error loading expenses'', fs)
      | Inr expenses \<Rightarrow> (OkTotal (summaryExpenses (elems expenses)), fs))"

definition updateExpenseHandler ::
  "codec \<Rightarrow> time \<Rightarrow> httpMethod \<Rightarrow> gint option \<Rightarrow> Expense option \<Rightarrow> fsys \<Rightarrow> response \<times> fsys" where
  "updateExpenseHandler c now m idStr body fs =
     (if m \<noteq> PUT then (HttpError 405 ''Only PUT requests allowed'', fs)
      else case idStr of
        None \<Rightarrow> (HttpError 400 ''Invalid expense ID'', fs)
      | Some id' \<Rightarrow>
          (case body of
             None \<Rightarrow> (HttpError 400 ''Invalid input'', fs)
           | Some updatedExpense \<Rightarrow>
               (case loadExpenses c fs of
                  Inl err \<Rightarrow> (HttpError 500 ''Error loading expenses'', fs)
                | Inr expenses \<Rightarrow>
                    (case updateLoop id' updatedExpense now (elems expenses) 0 of
                       (expenses, found) \<Rightarrow>
                         if \<not> found then (HttpError 404 ''Expense not found'', fs)
                         else (case saveExpenses c (Slice expenses) fs of
                                 (Some err, fs') \<Rightarrow> (HttpError 500 ''Error saving expenses'', fs')
                               | (None, fs') \<Rightarrow> (OkList (Slice expenses), fs'))))))"

definition deleteExpenseHandler ::
  "codec \<Rightarrow> httpMethod \<Rightarrow> gint option \<Rightarrow> fsys \<Rightarrow> response \<times> fsys" where
  "deleteExpenseHandler c m idStr fs =
     (if m \<noteq> DELETE then (HttpError 405 ''Only DELETE requests allowed'', fs)
      else case idStr of
        None \<Rightarrow> (HttpError 400 ''Invalid expense ID'', fs)
      | Some id' \<Rightarrow>
          (case loadExpenses c fs of
             Inl err \<Rightarrow> (HttpError 500 ''Error loading expenses'', fs)
           | Inr expenses \<Rightarrow>
               (case deleteLoop id' (elems expenses) 0 of
                  (expenses, found) \<Rightarrow>
                    if \<not> found then (HttpError 404 ''Expense not found'', fs)
                    else (case saveExpenses c (Slice expenses) fs of
                            (Some err, fs') \<Rightarrow> (HttpError 500 ''Error saving expenses'', fs')
                          | (None, fs') \<Rightarrow> (NoContent, fs')))))"

text \<open>A run of creations on a collection, one clock pair and one payload each.\<close>

fun addExpenses :: "(time \<times> time \<times> Expense) list \<Rightarrow> Expense list \<Rightarrow> Expense list" where
  "addExpenses [] expenses = expenses"
| "addExpenses ((t1, t2, expense) # reqs) expenses =
     addExpenses reqs (snd (addExpense t1 t2 expense expenses))"

section \<open>The identifier loop\<close>

lemma maxIDLoop_ge_start: "sint m \<le> sint (maxIDLoop m xs)"
proof (induction xs arbitrary: m)
  case Nil
  show ?case by simp
next
  case (Cons e es)
  show ?case using Cons.IH [of "ID e"] Cons.IH [of m] by auto
qed

lemma maxIDLoop_ge_ids: "e \<in> set xs \<Longrightarrow> sint (ID e) \<le> sint (maxIDLoop m xs)"
proof (induction xs arbitrary: m)
  case Nil
  then show ?case by simp
next
  case (Cons x xs)
  then show ?case
    using maxIDLoop_ge_start [of "ID x" xs] maxIDLoop_ge_start [of m xs] by auto
qed

lemma maxIDLoop_mem: "maxIDLoop m xs = m \<or> maxIDLoop m xs \<in> ID ` set xs"
proof (induction xs arbitrary: m)
  case Nil
  show ?case by simp
next
  case (Cons e es)
  show ?case using Cons.IH [of "ID e"] Cons.IH [of m] by auto
qed

lemma sint_maxIDLoop:
  "sint (maxIDLoop m xs) = Max (insert (sint m) (sint ` ID ` set xs))"
proof (rule Max_eqI [symmetric])
  show "finite (insert (sint m) (sint ` ID ` set xs))" by simp
  show "y \<le> sint (maxIDLoop m xs)" if "y \<in> insert (sint m) (sint ` ID ` set xs)" for y
    using that maxIDLoop_ge_start maxIDLoop_ge_ids by auto
  show "sint (maxIDLoop m xs) \<in> insert (sint m) (sint ` ID ` set xs)"
    using maxIDLoop_mem [of m xs] by auto
qed

lemma maxIDLoop_append: "maxIDLoop m (xs @ ys) = maxIDLoop (maxIDLoop m xs) ys"
  by (induction xs arbitrary: m) simp_all

text \<open>Adding one below the largest 64-bit value does not wrap.\<close>

lemma sint_succ:
  fixes x :: gint
  assumes "sint x < 9223372036854775807"
  shows "sint (x + 1) = sint x + 1"
proof -
  have "- (2 ^ 63) \<le> sint x + 1" using sint_ge [of x] by simp
  moreover have "sint x + 1 < 2 ^ 63" using assms by simp
  ultimately have "signed_take_bit 63 (sint x + 1) = sint x + 1"
    by (rule signed_take_bit_int_eq_self)
  then show ?thesis by (simp add: sint_word_ariths)
qed

lemma maxIDLoop_below:
  assumes "\<forall>e\<in>set xs. sint (ID e) < 9223372036854775807"
  shows "sint (maxIDLoop 0 xs) < 9223372036854775807"
  using maxIDLoop_mem [of 0 xs] assms by auto

lemma sint_generateUniqueID:
  assumes "\<forall>e\<in>set xs. sint (ID e) < 9223372036854775807"
  shows "sint (generateUniqueID xs) = sint (maxIDLoop 0 xs) + 1"
  unfolding generateUniqueID_def by (rule sint_succ) (rule maxIDLoop_below [OF assms])

section \<open>What \<^verbatim>\<open>generateUniqueID\<close> returns\<close>

text \<open>
  Claim C10, as amended. For every collection whose identifiers are all below the largest
  64-bit value \<open>2^63 - 1\<close>, also one with zero or negative identifiers,
  \<^verbatim>\<open>generateUniqueID\<close> returns a value strictly greater than every identifier of the
  collection and at least 1: the running maximum starts at 0 and is only raised by
  strictly greater identifiers.
\<close>

theorem generateUniqueID_above:
  assumes "\<forall>e\<in>set xs. sint (ID e) < 9223372036854775807"
  shows "(\<forall>e\<in>set xs. sint (ID e) < sint (generateUniqueID xs))
         \<and> 1 \<le> sint (generateUniqueID xs)"
proof -
  have g: "sint (generateUniqueID xs) = sint (maxIDLoop 0 xs) + 1"
    by (rule sint_generateUniqueID [OF assms])
  have "sint (ID e) < sint (generateUniqueID xs)" if "e \<in> set xs" for e
    using maxIDLoop_ge_ids [OF that, of 0] g by simp
  moreover have "1 \<le> sint (generateUniqueID xs)"
    using maxIDLoop_ge_start [of 0 xs] g by simp
  ultimately show ?thesis by blast
qed

text \<open>The theorem at a collection with a negative identifier: the next one is 8.\<close>

theorem generateUniqueID_above_witness:
  "sint (ID \<lparr>ID = - 5, Description = ''a'', Amount = 1, CreatedAt = 0, UpdatedAt = 0\<rparr>)
     < sint (generateUniqueID
        [\<lparr>ID = - 5, Description = ''a'', Amount = 1, CreatedAt = 0, UpdatedAt = 0\<rparr>,
         \<lparr>ID = 7, Description = ''b'', Amount = 2, CreatedAt = 0, UpdatedAt = 0\<rparr>])
   \<and> sint (ID \<lparr>ID = 7, Description = ''b'', Amount = 2, CreatedAt = 0, UpdatedAt = 0\<rparr>)
     < sint (generateUniqueID
        [\<lparr>ID = - 5, Description = ''a'', Amount = 1, CreatedAt = 0, UpdatedAt = 0\<rparr>,
         \<lparr>ID = 7, Description = ''b'', Amount = 2, CreatedAt = 0, UpdatedAt = 0\<rparr>])
   \<and> 1 \<le> sint (generateUniqueID
        [\<lparr>ID = - 5, Description = ''a'', Amount = 1, CreatedAt = 0, UpdatedAt = 0\<rparr>,
         \<lparr>ID = 7, Description = ''b'', Amount = 2, CreatedAt = 0, UpdatedAt = 0\<rparr>])"
  using generateUniqueID_above
    [of "[\<lparr>ID = - 5, Description = ''a'', Amount = 1, CreatedAt = 0, UpdatedAt = 0\<rparr>,
          \<lparr>ID = 7, Description = ''b'', Amount = 2, CreatedAt = 0, UpdatedAt = 0\<rparr>]"]
  by simp

text \<open>
  Claim C10 as it is written fails at a collection holding the identifier \<open>2^63 - 1\<close>,
  which a stored document can carry: the addition wraps, and the result \<open>- 2^63\<close> is
  neither greater than that identifier nor at least 1.
\<close>

theorem generateUniqueID_above_counterexample:
  "sint (generateUniqueID [\<lparr>ID = 9223372036854775807, Description = ''rent'', Amount = 1,
                           CreatedAt = 0, UpdatedAt = 0\<rparr>]) = - 9223372036854775808
   \<and> \<not> sint (ID \<lparr>ID = 9223372036854775807, Description = ''rent'', Amount = 1,
                  CreatedAt = 0, UpdatedAt = 0\<rparr>)
       < sint (generateUniqueID [\<lparr>ID = 9223372036854775807, Description = ''rent'', Amount = 1,
                                 CreatedAt = 0, UpdatedAt = 0\<rparr>])
   \<and> \<not> 1 \<le> sint (generateUniqueID [\<lparr>ID = 9223372036854775807, Description = ''rent'',
                                     Amount = 1, CreatedAt = 0, UpdatedAt = 0\<rparr>])"
  by (simp add: generateUniqueID_def)

section \<open>The update and delete loops\<close>

text \<open>
  Both loops stop at the first index whose record has the identifier, which is the
  length of the longest prefix without it. Their defining equations unfold
  themselves, so they are taken out of the simplifier and applied by hand.
\<close>

declare updateLoop.simps [simp del]
declare deleteLoop.simps [simp del]

lemma deleteLoop_from:
  "i \<le> length xs \<Longrightarrow>
   deleteLoop id' xs i =
     (let k = i + length (takeWhile (\<lambda>e. ID e \<noteq> id') (drop i xs))
      in if k < length xs then (take k xs @ drop (Suc k) xs, True) else (xs, False))"
proof (induction id' xs i rule: deleteLoop.induct)
  case (1 id' xs i)
  show ?case
  proof (cases "i < length xs")
    case False
    then show ?thesis by (subst deleteLoop.simps) simp
  next
    case True
    then have d: "drop i xs = xs ! i # drop (Suc i) xs"
      by (simp add: Cons_nth_drop_Suc)
    show ?thesis
    proof (cases "ID (xs ! i) = id'")
      case True
      with \<open>i < length xs\<close> d show ?thesis by (subst deleteLoop.simps) simp
    next
      case False
      with \<open>i < length xs\<close> d "1.IH" show ?thesis by (subst deleteLoop.simps) (simp add: Let_def)
    qed
  qed
qed

lemma updateLoop_from:
  "i \<le> length xs \<Longrightarrow>
   updateLoop id' u now xs i =
     (let k = i + length (takeWhile (\<lambda>e. ID e \<noteq> id') (drop i xs))
      in if k < length xs
         then (xs[k := (xs ! k)\<lparr>Description := Description u, Amount := Amount u,
                                 UpdatedAt := now\<rparr>], True)
         else (xs, False))"
proof (induction id' u now xs i rule: updateLoop.induct)
  case (1 id' u now xs i)
  show ?case
  proof (cases "i < length xs")
    case False
    then show ?thesis by (subst updateLoop.simps) simp
  next
    case True
    then have d: "drop i xs = xs ! i # drop (Suc i) xs"
      by (simp add: Cons_nth_drop_Suc)
    show ?thesis
    proof (cases "ID (xs ! i) = id'")
      case True
      with \<open>i < length xs\<close> d show ?thesis by (subst updateLoop.simps) simp
    next
      case False
      with \<open>i < length xs\<close> d "1.IH" show ?thesis by (subst updateLoop.simps) (simp add: Let_def)
    qed
  qed
qed

lemma first_lt_iff:
  "length (takeWhile (\<lambda>e. ID e \<noteq> id') xs) < length xs \<longleftrightarrow> id' \<in> ID ` set xs"
  by (induction xs) auto

lemma first_hit:
  "length (takeWhile (\<lambda>e. ID e \<noteq> id') xs) < length xs \<Longrightarrow>
   ID (xs ! length (takeWhile (\<lambda>e. ID e \<noteq> id') xs)) = id'"
  using nth_length_takeWhile [of "\<lambda>e. ID e \<noteq> id'" xs] by simp

lemma first_before:
  "j < length (takeWhile (\<lambda>e. ID e \<noteq> id') xs) \<Longrightarrow> ID (xs ! j) \<noteq> id'"
  using nth_mem [of j "takeWhile (\<lambda>e. ID e \<noteq> id') xs"]
    set_takeWhileD [of "xs ! j" "\<lambda>e. ID e \<noteq> id'" xs]
    takeWhile_nth [of j "\<lambda>e. ID e \<noteq> id'" xs]
  by simp

lemma deleteLoop_0:
  "deleteLoop id' xs 0 =
     (if id' \<in> ID ` set xs
      then (take (length (takeWhile (\<lambda>e. ID e \<noteq> id') xs)) xs
            @ drop (Suc (length (takeWhile (\<lambda>e. ID e \<noteq> id') xs))) xs, True)
      else (xs, False))"
  using deleteLoop_from [of 0 xs id'] first_lt_iff [of id' xs] by (simp add: Let_def)

lemma updateLoop_0:
  "updateLoop id' u now xs 0 =
     (if id' \<in> ID ` set xs
      then (xs[length (takeWhile (\<lambda>e. ID e \<noteq> id') xs) :=
                 (xs ! length (takeWhile (\<lambda>e. ID e \<noteq> id') xs))
                    \<lparr>Description := Description u, Amount := Amount u, UpdatedAt := now\<rparr>], True)
      else (xs, False))"
  using updateLoop_from [of 0 xs id' u now] first_lt_iff [of id' xs] by (simp add: Let_def)

section \<open>Creation\<close>

lemma addExpense_fst:
  "fst (addExpense t1 t2 p xs) = p\<lparr>ID := generateUniqueID xs, CreatedAt := t1, UpdatedAt := t2\<rparr>"
  by (simp add: addExpense_def Let_def)

lemma addExpense_snd: "snd (addExpense t1 t2 p xs) = xs @ [fst (addExpense t1 t2 p xs)]"
  by (simp add: addExpense_def Let_def)

lemma sint_eq_iff: "sint a = sint b \<longleftrightarrow> a = b" for a b :: gint
  using signed_word_eqI [of a b] by auto

lemma deleteLoop_subset: "set (fst (deleteLoop id' xs 0)) \<subseteq> set xs"
  using set_take_subset [of "length (takeWhile (\<lambda>e. ID e \<noteq> id') xs)" xs]
    set_drop_subset [of "Suc (length (takeWhile (\<lambda>e. ID e \<noteq> id') xs))" xs]
  by (auto simp: deleteLoop_0)

lemma maxIDLoop_no_positive:
  assumes "\<forall>e\<in>set xs. sint (ID e) \<le> 0"
  shows "maxIDLoop 0 xs = 0"
proof -
  have "sint (maxIDLoop 0 xs) \<le> 0"
    using maxIDLoop_mem [of 0 xs] assms by auto
  moreover have "0 \<le> sint (maxIDLoop 0 xs)"
    using maxIDLoop_ge_start [of 0 xs] by simp
  ultimately have "sint (maxIDLoop 0 xs) = sint (0 :: gint)" by simp
  then show ?thesis by (simp only: sint_eq_iff)
qed

text \<open>
  Claim C1, as amended. For a loaded collection whose identifiers are all below
  \<open>2^63 - 1\<close>, the created record gets the identifier 1 + m, where m is the largest
  of 0 and the identifiers of the collection. It gets 1 when no identifier is
  positive, and so on the empty collection. After the delete loop has run on such a
  collection for an identifier \<open>d\<close>, a creation gives \<open>d\<close> again exactly when \<open>d\<close>
  is 1 + the largest of 0 and the identifiers that remain. So it is after creating
  A (1) and B (2) and deleting 2: the collection is the one holding A only, and
  creating C gives it the identifier 2 again.
\<close>

theorem addExpense_id:
  "((\<forall>e\<in>set xs. sint (ID e) < 9223372036854775807) \<longrightarrow>
      sint (ID (fst (addExpense t1 t2 p xs))) = 1 + Max (insert 0 (sint ` ID ` set xs)))
   \<and> ((\<forall>e\<in>set xs. sint (ID e) \<le> 0) \<longrightarrow> ID (fst (addExpense t1 t2 p xs)) = 1)
   \<and> ID (fst (addExpense t1 t2 p [])) = 1
   \<and> ((\<forall>e\<in>set xs. sint (ID e) < 9223372036854775807) \<longrightarrow>
        (ID (fst (addExpense t1 t2 p (fst (deleteLoop d xs 0)))) = d
         \<longleftrightarrow> sint d = 1 + Max (insert 0 (sint ` ID ` set (fst (deleteLoop d xs 0))))))
   \<and> ID (fst (addExpense t1 t2 a [])) = 1
   \<and> ID (fst (addExpense t3 t4 b (snd (addExpense t1 t2 a [])))) = 2
   \<and> fst (deleteLoop 2 (snd (addExpense t3 t4 b (snd (addExpense t1 t2 a [])))) 0)
       = snd (addExpense t1 t2 a [])
   \<and> ID (fst (addExpense t5 t6 c (fst (deleteLoop 2
         (snd (addExpense t3 t4 b (snd (addExpense t1 t2 a [])))) 0)))) = 2"
proof -
  have gen: "sint (ID (fst (addExpense t1 t2 p ys))) = 1 + Max (insert 0 (sint ` ID ` set ys))"
    if "\<forall>e\<in>set ys. sint (ID e) < 9223372036854775807" for ys
    using sint_generateUniqueID [OF that] sint_maxIDLoop [of 0 ys]
    by (simp add: addExpense_fst)
  have nonpos: "ID (fst (addExpense t1 t2 p xs)) = 1" if "\<forall>e\<in>set xs. sint (ID e) \<le> 0"
    using maxIDLoop_no_positive [OF that] by (simp add: addExpense_fst generateUniqueID_def)
  have reuse: "ID (fst (addExpense t1 t2 p (fst (deleteLoop d xs 0)))) = d
         \<longleftrightarrow> sint d = 1 + Max (insert 0 (sint ` ID ` set (fst (deleteLoop d xs 0))))"
    if b: "\<forall>e\<in>set xs. sint (ID e) < 9223372036854775807"
  proof -
    have "\<forall>e\<in>set (fst (deleteLoop d xs 0)). sint (ID e) < 9223372036854775807"
      using b deleteLoop_subset [of d xs] by blast
    from gen [OF this] show ?thesis
      using sint_eq_iff [of "ID (fst (addExpense t1 t2 p (fst (deleteLoop d xs 0))))" d] by auto
  qed
  have e1: "ID (fst (addExpense t1 t2 q [])) = 1" for q
    by (simp add: addExpense_fst generateUniqueID_def)
  have e2: "ID (fst (addExpense t3 t4 b (snd (addExpense t1 t2 a [])))) = 2"
    by (simp add: addExpense_def generateUniqueID_def Let_def)
  have del: "fst (deleteLoop 2 (snd (addExpense t3 t4 b (snd (addExpense t1 t2 a [])))) 0)
       = snd (addExpense t1 t2 a [])"
    by (simp add: addExpense_def generateUniqueID_def Let_def deleteLoop_0)
  have e3: "ID (fst (addExpense t5 t6 c (fst (deleteLoop 2
         (snd (addExpense t3 t4 b (snd (addExpense t1 t2 a [])))) 0)))) = 2"
    unfolding del by (simp add: addExpense_def generateUniqueID_def Let_def)
  from gen [of xs] nonpos reuse e1 e2 del e3 show ?thesis by blast
qed

text \<open>
  The theorem at a collection with the identifiers 4 and 2, where the payload's 99
  becomes 5; at one with the identifiers -5 and 0, where it becomes 1; and at a
  collection with the identifiers 1 and 2 after the delete loop for 2, where it
  becomes 2.
\<close>

theorem addExpense_id_witness:
  "sint (ID (fst (addExpense 10 11
      \<lparr>ID = 99, Description = ''tea'', Amount = 300, CreatedAt = 0, UpdatedAt = 0\<rparr>
      [\<lparr>ID = 4, Description = ''a'', Amount = 1, CreatedAt = 0, UpdatedAt = 0\<rparr>,
       \<lparr>ID = 2, Description = ''b'', Amount = 2, CreatedAt = 0, UpdatedAt = 0\<rparr>]))) = 5
   \<and> ID (fst (addExpense 10 11
      \<lparr>ID = 99, Description = ''tea'', Amount = 300, CreatedAt = 0, UpdatedAt = 0\<rparr>
      [\<lparr>ID = - 5, Description = ''a'', Amount = 1, CreatedAt = 0, UpdatedAt = 0\<rparr>,
       \<lparr>ID = 0, Description = ''b'', Amount = 2, CreatedAt = 0, UpdatedAt = 0\<rparr>])) = 1
   \<and> ID (fst (addExpense 10 11
      \<lparr>ID = 99, Description = ''tea'', Amount = 300, CreatedAt = 0, UpdatedAt = 0\<rparr>
      (fst (deleteLoop 2
        [\<lparr>ID = 1, Description = ''a'', Amount = 1, CreatedAt = 0, UpdatedAt = 0\<rparr>,
         \<lparr>ID = 2, Description = ''b'', Amount = 2, CreatedAt = 0, UpdatedAt = 0\<rparr>] 0)))) = 2"
  using addExpense_id
    [where xs = "[\<lparr>ID = 4, Description = ''a'', Amount = 1, CreatedAt = 0, UpdatedAt = 0\<rparr>,
          \<lparr>ID = 2, Description = ''b'', Amount = 2, CreatedAt = 0, UpdatedAt = 0\<rparr>]"
       and ?t1.0 = 10 and ?t2.0 = 11
       and p = "\<lparr>ID = 99, Description = ''tea'', Amount = 300, CreatedAt = 0, UpdatedAt = 0\<rparr>"]
    addExpense_id
    [where xs = "[\<lparr>ID = - 5, Description = ''a'', Amount = 1, CreatedAt = 0, UpdatedAt = 0\<rparr>,
          \<lparr>ID = 0, Description = ''b'', Amount = 2, CreatedAt = 0, UpdatedAt = 0\<rparr>]"
       and ?t1.0 = 10 and ?t2.0 = 11
       and p = "\<lparr>ID = 99, Description = ''tea'', Amount = 300, CreatedAt = 0, UpdatedAt = 0\<rparr>"]
    addExpense_id
    [where xs = "[\<lparr>ID = 1, Description = ''a'', Amount = 1, CreatedAt = 0, UpdatedAt = 0\<rparr>,
          \<lparr>ID = 2, Description = ''b'', Amount = 2, CreatedAt = 0, UpdatedAt = 0\<rparr>]"
       and ?t1.0 = 10 and ?t2.0 = 11 and d = 2
       and p = "\<lparr>ID = 99, Description = ''tea'', Amount = 300, CreatedAt = 0, UpdatedAt = 0\<rparr>"]
  by (simp add: deleteLoop_0)

text \<open>
  Claim C1 as it is written fails in three ways. With the identifier \<open>2^63 - 1\<close>
  loaded, 1 + max is \<open>2^63\<close> and the record is given \<open>- 2^63\<close>. With the only
  identifier -5 loaded, 1 + max is -4 and the record is given 1. And after creating
  A, B and C (1, 2, 3) and deleting 2 and then 3, the identifier just deleted was
  the maximal one, 3, and the next record is given 2.
\<close>

theorem addExpense_id_counterexample:
  "sint (ID (fst (addExpense 10 11
      \<lparr>ID = 0, Description = ''tea'', Amount = 300, CreatedAt = 0, UpdatedAt = 0\<rparr>
      [\<lparr>ID = 9223372036854775807, Description = ''rent'', Amount = 1,
        CreatedAt = 0, UpdatedAt = 0\<rparr>])))
    = - 9223372036854775808
   \<and> 1 + Max (sint ` ID ` set
      [\<lparr>ID = 9223372036854775807, Description = ''rent'', Amount = 1,
        CreatedAt = 0, UpdatedAt = 0\<rparr>])
    = 9223372036854775808
   \<and> sint (ID (fst (addExpense 10 11
      \<lparr>ID = 0, Description = ''tea'', Amount = 300, CreatedAt = 0, UpdatedAt = 0\<rparr>
      [\<lparr>ID = - 5, Description = ''debt'', Amount = 1, CreatedAt = 0, UpdatedAt = 0\<rparr>])))
    = 1
   \<and> 1 + Max (sint ` ID ` set
      [\<lparr>ID = - 5, Description = ''debt'', Amount = 1, CreatedAt = 0, UpdatedAt = 0\<rparr>])
    = - 4
   \<and> map ID (addExpenses
        [(1, 1, \<lparr>ID = 0, Description = ''A'', Amount = 1, CreatedAt = 0, UpdatedAt = 0\<rparr>),
         (2, 2, \<lparr>ID = 0, Description = ''B'', Amount = 2, CreatedAt = 0, UpdatedAt = 0\<rparr>),
         (3, 3, \<lparr>ID = 0, Description = ''C'', Amount = 3, CreatedAt = 0, UpdatedAt = 0\<rparr>)] [])
    = [1, 2, 3]
   \<and> map ID (fst (deleteLoop 2 (addExpenses
        [(1, 1, \<lparr>ID = 0, Description = ''A'', Amount = 1, CreatedAt = 0, UpdatedAt = 0\<rparr>),
         (2, 2, \<lparr>ID = 0, Description = ''B'', Amount = 2, CreatedAt = 0, UpdatedAt = 0\<rparr>),
         (3, 3, \<lparr>ID = 0, Description = ''C'', Amount = 3, CreatedAt = 0, UpdatedAt = 0\<rparr>)] []) 0))
    = [1, 3]
   \<and> map ID (fst (deleteLoop 3 (fst (deleteLoop 2 (addExpenses
        [(1, 1, \<lparr>ID = 0, Description = ''A'', Amount = 1, CreatedAt = 0, UpdatedAt = 0\<rparr>),
         (2, 2, \<lparr>ID = 0, Description = ''B'', Amount = 2, CreatedAt = 0, UpdatedAt = 0\<rparr>),
         (3, 3, \<lparr>ID = 0, Description = ''C'', Amount = 3, CreatedAt = 0, UpdatedAt = 0\<rparr>)] []) 0)) 0))
    = [1]
   \<and> ID (fst (addExpense 4 4
        \<lparr>ID = 0, Description = ''D'', Amount = 4, CreatedAt = 0, UpdatedAt = 0\<rparr>
        (fst (deleteLoop 3 (fst (deleteLoop 2 (addExpenses
        [(1, 1, \<lparr>ID = 0, Description = ''A'', Amount = 1, CreatedAt = 0, UpdatedAt = 0\<rparr>),
         (2, 2, \<lparr>ID = 0, Description = ''B'', Amount = 2, CreatedAt = 0, UpdatedAt = 0\<rparr>),
         (3, 3, \<lparr>ID = 0, Description = ''C'', Amount = 3, CreatedAt = 0, UpdatedAt = 0\<rparr>)] []) 0)) 0))))
    = 2"
  by (simp add: addExpense_def generateUniqueID_def Let_def deleteLoop_0)

section \<open>Update and delete\<close>

text \<open>
  Claim C3. When the loaded collection has no record with the identifier, the update
  handler and the delete handler both answer 404 \<^verbatim>\<open>Expense not found\<close> and return
  before \<^verbatim>\<open>saveExpenses\<close>: the file system, and so the stored collection, is the one
  they started from.
\<close>

theorem notFound_unchanged:
  assumes "loadExpenses c fs = Inr s" and "id' \<notin> ID ` set (elems s)"
  shows "updateExpenseHandler c now PUT (Some id') (Some u) fs
           = (HttpError 404 ''Expense not found'', fs)
         \<and> deleteExpenseHandler c DELETE (Some id') fs
           = (HttpError 404 ''Expense not found'', fs)"
  using assms by (simp add: updateExpenseHandler_def deleteExpenseHandler_def updateLoop_0 deleteLoop_0)

text \<open>The theorem at a stored collection holding identifier 1 only, asked for 3.\<close>

theorem notFound_unchanged_witness:
  "updateExpenseHandler \<lparr>marshal = (\<lambda>xs. Some ''doc2''),
       unmarshal = (\<lambda>d. Some (Slice
         [\<lparr>ID = 1, Description = ''coffee'', Amount = 350, CreatedAt = 5, UpdatedAt = 5\<rparr>]))\<rparr>
     20 PUT (Some 3)
     (Some \<lparr>ID = 0, Description = ''tea'', Amount = 300, CreatedAt = 0, UpdatedAt = 0\<rparr>)
     \<lparr>disk = Data ''doc1'', writing = WriteOk\<rparr>
   = (HttpError 404 ''Expense not found'', \<lparr>disk = Data ''doc1'', writing = WriteOk\<rparr>)
   \<and> deleteExpenseHandler \<lparr>marshal = (\<lambda>xs. Some ''doc2''),
       unmarshal = (\<lambda>d. Some (Slice
         [\<lparr>ID = 1, Description = ''coffee'', Amount = 350, CreatedAt = 5, UpdatedAt = 5\<rparr>]))\<rparr>
     DELETE (Some 3) \<lparr>disk = Data ''doc1'', writing = WriteOk\<rparr>
   = (HttpError 404 ''Expense not found'', \<lparr>disk = Data ''doc1'', writing = WriteOk\<rparr>)"
  using notFound_unchanged [of "\<lparr>marshal = (\<lambda>xs. Some ''doc2''),
       unmarshal = (\<lambda>d. Some (Slice
         [\<lparr>ID = 1, Description = ''coffee'', Amount = 350, CreatedAt = 5, UpdatedAt = 5\<rparr>]))\<rparr>"
      "\<lparr>disk = Data ''doc1'', writing = WriteOk\<rparr>"
      "Slice [\<lparr>ID = 1, Description = ''coffee'', Amount = 350, CreatedAt = 5, UpdatedAt = 5\<rparr>]" 3 20
      "\<lparr>ID = 0, Description = ''tea'', Amount = 300, CreatedAt = 0, UpdatedAt = 0\<rparr>"]
  by (simp add: loadExpenses_def)

text \<open>
  Claim C4. When the collection holds the identifier, the update loop finds the first
  record with it, at index \<open>k\<close>, and reports \<^verbatim>\<open>found\<close>. The result \<open>ys\<close> has the
  length of the collection; its record at \<open>k\<close> has the description and amount of the
  request, the identifier and creation time it had, and the update time \<open>now\<close>, which
  is not before the old update time when the clock has not gone back behind it; every
  other index holds the record it held, so the order of the identifiers is the same.
  With the collection loaded and the save successful, the handler answers with the
  whole updated collection.
\<close>

theorem update_first_match:
  "id' \<in> ID ` set xs \<Longrightarrow>
   (let k = length (takeWhile (\<lambda>e. ID e \<noteq> id') xs);
        ys = fst (updateLoop id' u now xs 0)
    in snd (updateLoop id' u now xs 0)
     \<and> k < length xs \<and> ID (xs ! k) = id' \<and> (\<forall>j<k. ID (xs ! j) \<noteq> id')
     \<and> length ys = length xs
     \<and> Description (ys ! k) = Description u \<and> Amount (ys ! k) = Amount u
     \<and> ID (ys ! k) = ID (xs ! k) \<and> CreatedAt (ys ! k) = CreatedAt (xs ! k)
     \<and> UpdatedAt (ys ! k) = now
     \<and> (UpdatedAt (xs ! k) \<le> now \<longrightarrow> UpdatedAt (xs ! k) \<le> UpdatedAt (ys ! k))
     \<and> (\<forall>j<length xs. j \<noteq> k \<longrightarrow> ys ! j = xs ! j)
     \<and> map ID ys = map ID xs
     \<and> (\<forall>c fs fs' s. loadExpenses c fs = Inr s \<longrightarrow> elems s = xs \<longrightarrow>
           saveExpenses c (Slice ys) fs = (None, fs') \<longrightarrow>
           updateExpenseHandler c now PUT (Some id') (Some u) fs = (OkList (Slice ys), fs')))"
proof -
  assume mem: "id' \<in> ID ` set xs"
  define k where "k = length (takeWhile (\<lambda>e. ID e \<noteq> id') xs)"
  define ys where "ys = xs[k := (xs ! k)\<lparr>Description := Description u, Amount := Amount u,
                                         UpdatedAt := now\<rparr>]"
  have loop: "updateLoop id' u now xs 0 = (ys, True)"
    using mem by (simp add: updateLoop_0 ys_def k_def)
  have k: "k < length xs" using mem first_lt_iff [of id' xs] by (simp add: k_def)
  have hit: "ID (xs ! k) = id'" using first_hit [of id' xs] k by (simp add: k_def)
  have before: "\<forall>j<k. ID (xs ! j) \<noteq> id'" using first_before [of _ id' xs] by (simp add: k_def)
  have ids: "map ID ys = map ID xs"
    using k by (simp add: ys_def list_eq_iff_nth_eq nth_list_update)
  have handler: "updateExpenseHandler c now PUT (Some id') (Some u) fs = (OkList (Slice ys), fs')"
    if "loadExpenses c fs = Inr s" "elems s = xs" "saveExpenses c (Slice ys) fs = (None, fs')"
    for c fs fs' s
    using that loop by (simp add: updateExpenseHandler_def)
  show ?thesis
    unfolding Let_def k_def [symmetric] loop fst_conv snd_conv
    using k hit before ids handler by (simp add: ys_def)
qed

text \<open>Removing the first record with an identifier, on the list itself.\<close>

lemma remove_first:
  "id' \<in> ID ` set xs \<Longrightarrow>
   set (take (length (takeWhile (\<lambda>e. ID e \<noteq> id') xs)) xs
        @ drop (Suc (length (takeWhile (\<lambda>e. ID e \<noteq> id') xs))) xs) \<subseteq> set xs
   \<and> (\<forall>e\<in>set xs. ID e \<noteq> id' \<longrightarrow>
         e \<in> set (take (length (takeWhile (\<lambda>e. ID e \<noteq> id') xs)) xs
        @ drop (Suc (length (takeWhile (\<lambda>e. ID e \<noteq> id') xs))) xs))
   \<and> (distinct (map ID xs) \<longrightarrow>
        take (length (takeWhile (\<lambda>e. ID e \<noteq> id') xs)) xs
        @ drop (Suc (length (takeWhile (\<lambda>e. ID e \<noteq> id') xs))) xs
        = filter (\<lambda>e. ID e \<noteq> id') xs)"
proof (induction xs)
  case Nil
  then show ?case by simp
next
  case (Cons e es)
  show ?case
  proof (cases "ID e = id'")
    case True
    have "filter (\<lambda>e. ID e \<noteq> id') es = es" if d: "distinct (map ID (e # es))"
    proof -
      from d have "ID e \<notin> ID ` set es" by simp
      then have "\<forall>x\<in>set es. ID x \<noteq> id'" using True by (auto simp: image_iff)
      then show ?thesis by (simp add: filter_id_conv)
    qed
    with True show ?thesis by auto
  next
    case False
    with Cons show ?thesis by auto
  qed
qed


text \<open>
  Claim C5. When the collection holds the identifier, the delete loop reports
  \<^verbatim>\<open>found\<close> and its result \<open>ys\<close> is the collection without its first record with that
  identifier (index \<open>k\<close>): the records before and after it, in their order. Every
  record with another identifier is still there, nothing new is, and when the
  identifiers are pairwise distinct no record with the identifier is left, \<open>ys\<close>
  being the collection filtered by it. With the collection loaded and the save
  successful, the handler answers 204 with no payload.
\<close>

theorem delete_first_match:
  "id' \<in> ID ` set xs \<Longrightarrow>
   (let k = length (takeWhile (\<lambda>e. ID e \<noteq> id') xs);
        ys = fst (deleteLoop id' xs 0)
    in snd (deleteLoop id' xs 0)
     \<and> k < length xs \<and> ID (xs ! k) = id' \<and> (\<forall>j<k. ID (xs ! j) \<noteq> id')
     \<and> ys = take k xs @ drop (Suc k) xs
     \<and> Suc (length ys) = length xs
     \<and> set ys \<subseteq> set xs
     \<and> (\<forall>e\<in>set xs. ID e \<noteq> id' \<longrightarrow> e \<in> set ys)
     \<and> (distinct (map ID xs) \<longrightarrow>
          id' \<notin> ID ` set ys \<and> ys = filter (\<lambda>e. ID e \<noteq> id') xs)
     \<and> (\<forall>c fs fs' s. loadExpenses c fs = Inr s \<longrightarrow> elems s = xs \<longrightarrow>
           saveExpenses c (Slice ys) fs = (None, fs') \<longrightarrow>
           deleteExpenseHandler c DELETE (Some id') fs = (NoContent, fs')))"
proof -
  assume mem: "id' \<in> ID ` set xs"
  define k where "k = length (takeWhile (\<lambda>e. ID e \<noteq> id') xs)"
  define ys where "ys = take k xs @ drop (Suc k) xs"
  have loop: "deleteLoop id' xs 0 = (ys, True)"
    using mem by (simp add: deleteLoop_0 ys_def k_def)
  have k: "k < length xs" using mem first_lt_iff [of id' xs] by (simp add: k_def)
  have hit: "ID (xs ! k) = id'" using first_hit [of id' xs] k by (simp add: k_def)
  have before: "\<forall>j<k. ID (xs ! j) \<noteq> id'" using first_before [of _ id' xs] by (simp add: k_def)
  have len: "Suc (length ys) = length xs" using k by (simp add: ys_def)
  have sub: "set ys \<subseteq> set xs"
    and others: "\<forall>e\<in>set xs. ID e \<noteq> id' \<longrightarrow> e \<in> set ys"
    and filt: "distinct (map ID xs) \<longrightarrow> ys = filter (\<lambda>e. ID e \<noteq> id') xs"
    using remove_first [OF mem] unfolding ys_def k_def by blast+
  have gone: "distinct (map ID xs) \<longrightarrow> id' \<notin> ID ` set ys"
    using filt by auto
  have handler: "deleteExpenseHandler c DELETE (Some id') fs = (NoContent, fs')"
    if "loadExpenses c fs = Inr s" "elems s = xs" "saveExpenses c (Slice ys) fs = (None, fs')"
    for c fs fs' s
    using that loop by (simp add: deleteExpenseHandler_def)
  show ?thesis
    unfolding Let_def k_def [symmetric] loop fst_conv snd_conv
    using k hit before len sub others filt gone handler by (simp add: ys_def)
qed


text \<open>
  The update theorem at a stored collection of two records, updating the second: the
  loop's result and the handler's answer.
\<close>

theorem update_first_match_witness:
  "updateLoop 2 \<lparr>ID = 0, Description = ''tea'', Amount = 300, CreatedAt = 0, UpdatedAt = 0\<rparr> 20
      [\<lparr>ID = 1, Description = ''coffee'', Amount = 350, CreatedAt = 5, UpdatedAt = 5\<rparr>,
       \<lparr>ID = 2, Description = ''rent'', Amount = 1000, CreatedAt = 6, UpdatedAt = 7\<rparr>] 0
     = ([\<lparr>ID = 1, Description = ''coffee'', Amount = 350, CreatedAt = 5, UpdatedAt = 5\<rparr>,
         \<lparr>ID = 2, Description = ''tea'', Amount = 300, CreatedAt = 6, UpdatedAt = 20\<rparr>], True)
   \<and> updateExpenseHandler
        \<lparr>marshal = (\<lambda>xs. Some ''doc2''), unmarshal = (\<lambda>d. Some (Slice
          [\<lparr>ID = 1, Description = ''coffee'', Amount = 350, CreatedAt = 5, UpdatedAt = 5\<rparr>,
           \<lparr>ID = 2, Description = ''rent'', Amount = 1000, CreatedAt = 6, UpdatedAt = 7\<rparr>]))\<rparr>
        20 PUT (Some 2)
        (Some \<lparr>ID = 0, Description = ''tea'', Amount = 300, CreatedAt = 0, UpdatedAt = 0\<rparr>)
        \<lparr>disk = Data ''doc1'', writing = WriteOk\<rparr>
     = (OkList (Slice
          [\<lparr>ID = 1, Description = ''coffee'', Amount = 350, CreatedAt = 5, UpdatedAt = 5\<rparr>,
           \<lparr>ID = 2, Description = ''tea'', Amount = 300, CreatedAt = 6, UpdatedAt = 20\<rparr>]),
        \<lparr>disk = Data ''doc2'', writing = WriteOk\<rparr>)"
  using update_first_match [of 2
      "[\<lparr>ID = 1, Description = ''coffee'', Amount = 350, CreatedAt = 5, UpdatedAt = 5\<rparr>,
        \<lparr>ID = 2, Description = ''rent'', Amount = 1000, CreatedAt = 6, UpdatedAt = 7\<rparr>]"
      "\<lparr>ID = 0, Description = ''tea'', Amount = 300, CreatedAt = 0, UpdatedAt = 0\<rparr>" 20]
  by (simp add: Let_def updateLoop_0 loadExpenses_def saveExpenses_def)

text \<open>
  The delete theorem at a stored collection of two records, deleting the first: the
  loop's result and the handler's answer.
\<close>

theorem delete_first_match_witness:
  "deleteLoop 1
      [\<lparr>ID = 1, Description = ''coffee'', Amount = 350, CreatedAt = 5, UpdatedAt = 5\<rparr>,
       \<lparr>ID = 2, Description = ''rent'', Amount = 1000, CreatedAt = 6, UpdatedAt = 7\<rparr>] 0
     = ([\<lparr>ID = 2, Description = ''rent'', Amount = 1000, CreatedAt = 6, UpdatedAt = 7\<rparr>], True)
   \<and> deleteExpenseHandler
        \<lparr>marshal = (\<lambda>xs. Some ''doc2''), unmarshal = (\<lambda>d. Some (Slice
          [\<lparr>ID = 1, Description = ''coffee'', Amount = 350, CreatedAt = 5, UpdatedAt = 5\<rparr>,
           \<lparr>ID = 2, Description = ''rent'', Amount = 1000, CreatedAt = 6, UpdatedAt = 7\<rparr>]))\<rparr>
        DELETE (Some 1) \<lparr>disk = Data ''doc1'', writing = WriteOk\<rparr>
     = (NoContent, \<lparr>disk = Data ''doc2'', writing = WriteOk\<rparr>)"
  using delete_first_match [of 1
      "[\<lparr>ID = 1, Description = ''coffee'', Amount = 350, CreatedAt = 5, UpdatedAt = 5\<rparr>,
        \<lparr>ID = 2, Description = ''rent'', Amount = 1000, CreatedAt = 6, UpdatedAt = 7\<rparr>]"]
  by (simp add: Let_def deleteLoop_0 loadExpenses_def saveExpenses_def)

section \<open>Distinct identifiers\<close>

lemma addExpense_distinct:
  assumes d: "distinct (map ID xs)" and b: "\<forall>e\<in>set xs. sint (ID e) < 9223372036854775807"
  shows "distinct (map ID (snd (addExpense t1 t2 p xs)))"
proof -
  have "generateUniqueID xs \<notin> ID ` set xs"
  proof
    assume "generateUniqueID xs \<in> ID ` set xs"
    then obtain e where e: "e \<in> set xs" "ID e = generateUniqueID xs" by auto
    have "sint (ID e) < sint (generateUniqueID xs)"
      using sint_generateUniqueID [OF b] maxIDLoop_ge_ids [OF e(1), of 0] by simp
    with e(2) show False by simp
  qed
  with d show ?thesis by (simp add: addExpense_snd addExpense_fst)
qed

text \<open>
  A creation on pairwise distinct identifiers gives a duplicate in one case only: the
  collection holds \<open>2^63 - 1\<close>, so that the addition wraps, and it holds \<open>- 2^63\<close>.
\<close>

lemma addExpense_distinct_iff:
  assumes d: "distinct (map ID xs)"
  shows "distinct (map ID (snd (addExpense t1 t2 p xs)))
         \<longleftrightarrow> \<not> (9223372036854775807 \<in> ID ` set xs \<and> - 9223372036854775808 \<in> ID ` set xs)"
proof (cases "sint (maxIDLoop 0 xs) < 9223372036854775807")
  case True
  have b: "\<forall>e\<in>set xs. sint (ID e) < 9223372036854775807"
    using maxIDLoop_ge_ids [of _ xs 0] True by fastforce
  have "9223372036854775807 \<notin> ID ` set xs"
  proof
    assume "9223372036854775807 \<in> ID ` set xs"
    then obtain e where "e \<in> set xs" "ID e = 9223372036854775807" by auto
    with b have "sint (9223372036854775807 :: gint) < 9223372036854775807" by metis
    then show False by simp
  qed
  with addExpense_distinct [OF d b] show ?thesis by simp
next
  case False
  have "sint (maxIDLoop 0 xs) < 2 ^ 63" using sint_lt [of "maxIDLoop 0 xs"] by simp
  with False have "sint (maxIDLoop 0 xs) = sint (9223372036854775807 :: gint)" by simp
  then have m: "maxIDLoop 0 xs = 9223372036854775807" by (simp only: sint_eq_iff)
  with maxIDLoop_mem [of 0 xs] have top: "9223372036854775807 \<in> ID ` set xs" by auto
  have g: "generateUniqueID xs = - 9223372036854775808"
    by (simp add: generateUniqueID_def m)
  show ?thesis using d top by (simp add: addExpense_snd addExpense_fst g)
qed

lemma updateLoop_ids: "map ID (fst (updateLoop id' u now xs 0)) = map ID xs"
proof (cases "id' \<in> ID ` set xs")
  case True
  then have "length (takeWhile (\<lambda>e. ID e \<noteq> id') xs) < length xs"
    by (simp add: first_lt_iff)
  with True show ?thesis
    by (simp add: updateLoop_0 list_eq_iff_nth_eq nth_list_update)
next
  case False
  then show ?thesis by (simp add: updateLoop_0)
qed

lemma deleteLoop_distinct:
  assumes "distinct (map ID xs)"
  shows "distinct (map ID (fst (deleteLoop id' xs 0)))"
proof (cases "id' \<in> ID ` set xs")
  case True
  have "fst (deleteLoop id' xs 0) = filter (\<lambda>e. ID e \<noteq> id') xs"
    using True remove_first [OF True] assms by (simp add: deleteLoop_0)
  then show ?thesis using assms by (simp add: distinct_map_filter)
next
  case False
  with assms show ?thesis by (simp add: deleteLoop_0)
qed

lemma maxIDLoop_addExpense:
  assumes "sint (maxIDLoop 0 xs) < 9223372036854775807"
  shows "sint (maxIDLoop 0 (snd (addExpense t1 t2 p xs))) = sint (maxIDLoop 0 xs) + 1"
  using sint_succ [OF assms]
  by (simp add: addExpense_snd addExpense_fst maxIDLoop_append generateUniqueID_def)

text \<open>
  Creations that start from a collection whose largest identifier leaves room for
  them keep the identifiers pairwise distinct; from the empty collection that is any
  run of fewer than \<open>2^63\<close> creations.
\<close>

lemma addExpenses_distinct:
  "distinct (map ID xs) \<Longrightarrow> sint (maxIDLoop 0 xs) + int (length reqs) < 9223372036854775808 \<Longrightarrow>
   distinct (map ID (addExpenses reqs xs)) \<and> length (addExpenses reqs xs) = length xs + length reqs"
proof (induction reqs arbitrary: xs)
  case Nil
  then show ?case by simp
next
  case (Cons r rs)
  obtain t1 t2 p where r: "r = (t1, t2, p)" by (cases r) auto
  from Cons.prems(2) have m: "sint (maxIDLoop 0 xs) < 9223372036854775807" by simp
  have b: "\<forall>e\<in>set xs. sint (ID e) < 9223372036854775807"
    using maxIDLoop_ge_ids [of _ xs 0] m by fastforce
  have d: "distinct (map ID (snd (addExpense t1 t2 p xs)))"
    by (rule addExpense_distinct [OF Cons.prems(1) b])
  have "sint (maxIDLoop 0 (snd (addExpense t1 t2 p xs))) + int (length rs) < 9223372036854775808"
    using maxIDLoop_addExpense [OF m, of t1 t2 p] Cons.prems(2) by simp
  from Cons.IH [OF d this] show ?case by (simp add: r addExpense_snd)
qed

text \<open>
  Claim C2. The comment on \<^verbatim>\<open>generateUniqueID\<close> in \<^verbatim>\<open>main.go\<close> says that it generates
  a unique identifier, and the claim says that a creation keeps pairwise distinct
  identifiers pairwise distinct. The code does not: for a stored collection with the
  two distinct identifiers \<open>2^63 - 1\<close> and \<open>- 2^63\<close>, \<^verbatim>\<open>generateUniqueID\<close> returns
  \<open>- 2^63\<close>, the collection with the new record appended has that identifier twice,
  and the handler answers with the record and stores the collection.
\<close>

theorem addExpense_duplicate_id:
  "distinct (map ID
      [\<lparr>ID = 9223372036854775807, Description = ''a'', Amount = 1, CreatedAt = 0, UpdatedAt = 0\<rparr>,
       \<lparr>ID = - 9223372036854775808, Description = ''b'', Amount = 2, CreatedAt = 0, UpdatedAt = 0\<rparr>])
   \<and> generateUniqueID
      [\<lparr>ID = 9223372036854775807, Description = ''a'', Amount = 1, CreatedAt = 0, UpdatedAt = 0\<rparr>,
       \<lparr>ID = - 9223372036854775808, Description = ''b'', Amount = 2, CreatedAt = 0, UpdatedAt = 0\<rparr>]
     = - 9223372036854775808
   \<and> \<not> distinct (map ID (snd (addExpense 10 11
      \<lparr>ID = 0, Description = ''tea'', Amount = 300, CreatedAt = 0, UpdatedAt = 0\<rparr>
      [\<lparr>ID = 9223372036854775807, Description = ''a'', Amount = 1, CreatedAt = 0, UpdatedAt = 0\<rparr>,
       \<lparr>ID = - 9223372036854775808, Description = ''b'', Amount = 2, CreatedAt = 0, UpdatedAt = 0\<rparr>])))
   \<and> addExpenseHandler
        \<lparr>marshal = (\<lambda>s. Some ''doc2''), unmarshal = (\<lambda>d. Some (Slice
          [\<lparr>ID = 9223372036854775807, Description = ''a'', Amount = 1, CreatedAt = 0, UpdatedAt = 0\<rparr>,
           \<lparr>ID = - 9223372036854775808, Description = ''b'', Amount = 2, CreatedAt = 0, UpdatedAt = 0\<rparr>]))\<rparr>
        10 11 POST
        (Some \<lparr>ID = 0, Description = ''tea'', Amount = 300, CreatedAt = 0, UpdatedAt = 0\<rparr>)
        \<lparr>disk = Data ''doc1'', writing = WriteOk\<rparr>
     = (Created \<lparr>ID = - 9223372036854775808, Description = ''tea'', Amount = 300,
                 CreatedAt = 10, UpdatedAt = 11\<rparr>,
        \<lparr>disk = Data ''doc2'', writing = WriteOk\<rparr>)"
  by (simp add: addExpenseHandler_def loadExpenses_def saveExpenses_def addExpense_def
        generateUniqueID_def Let_def)

section \<open>The summary\<close>

lemma sumLoop_eq: "sumLoop t xs = t + sum_list (map Amount xs)"
  by (induction xs arbitrary: t) (simp_all add: add.assoc)

lemma sint_sum_list:
  "sint (sum_list ws) = signed_take_bit 63 (sum_list (map sint ws))" for ws :: "gint list"
proof (induction ws)
  case Nil
  show ?case by simp
next
  case (Cons w ws)
  have a: "signed_take_bit 63 (sint w) = sint w"
    using sint_ge [of w] sint_lt [of w] by (simp add: signed_take_bit_int_eq_self)
  have "sint (w + sum_list ws) = signed_take_bit 63 (sint w + sint (sum_list ws))"
    by (simp add: sint_word_ariths)
  also have "\<dots> = signed_take_bit 63 (sint w + sum_list (map sint ws))"
    using signed_take_bit_add [of 63 "sint w" "sum_list (map sint ws)"]
    by (simp add: Cons.IH a)
  finally show ?case by simp
qed

text \<open>
  Claim C6, as amended. The total is the sum of the amounts reduced to the signed
  64-bit range, and so the arithmetic sum itself whenever that sum lies between
  \<open>- 2^63\<close> and \<open>2^63 - 1\<close>; on the empty collection it is 0. The summary handler
  returns the file system it was given, whatever the request, and on a loaded
  collection it reports the total of exactly the records that the list handler
  returns.
\<close>

theorem summaryExpenses_sum:
  "sint (summaryExpenses xs) = signed_take_bit 63 (\<Sum>e\<leftarrow>xs. sint (Amount e))
   \<and> (- 9223372036854775808 \<le> (\<Sum>e\<leftarrow>xs. sint (Amount e))
        \<and> (\<Sum>e\<leftarrow>xs. sint (Amount e)) < 9223372036854775808
       \<longrightarrow> sint (summaryExpenses xs) = (\<Sum>e\<leftarrow>xs. sint (Amount e)))
   \<and> summaryExpenses [] = 0
   \<and> snd (summaryExpensesHandler c m fs) = fs
   \<and> (\<forall>s. loadExpenses c fs = Inr s \<longrightarrow> elems s = xs \<longrightarrow>
        listExpensesHandler c GET fs = (OkList s, fs)
        \<and> summaryExpensesHandler c GET fs = (OkTotal (summaryExpenses xs), fs))"
proof -
  have w: "sint (summaryExpenses xs) = signed_take_bit 63 (\<Sum>e\<leftarrow>xs. sint (Amount e))"
    using sint_sum_list [of "map Amount xs"]
    by (simp add: summaryExpenses_def sumLoop_eq comp_def)
  have "sint (summaryExpenses xs) = (\<Sum>e\<leftarrow>xs. sint (Amount e))"
    if "- 9223372036854775808 \<le> (\<Sum>e\<leftarrow>xs. sint (Amount e))"
       "(\<Sum>e\<leftarrow>xs. sint (Amount e)) < 9223372036854775808"
    using that signed_take_bit_int_eq_self [of 63 "\<Sum>e\<leftarrow>xs. sint (Amount e)"] w by simp
  moreover have "snd (summaryExpensesHandler c m fs) = fs"
    by (simp add: summaryExpensesHandler_def split: sum.split)
  ultimately show ?thesis
    using w by (simp add: summaryExpenses_def listExpensesHandler_def summaryExpensesHandler_def)
qed

text \<open>The theorem at the amounts 350 and -50, stored in a document.\<close>

theorem summaryExpenses_sum_witness:
  "sint (summaryExpenses
      [\<lparr>ID = 1, Description = ''coffee'', Amount = 350, CreatedAt = 5, UpdatedAt = 5\<rparr>,
       \<lparr>ID = 2, Description = ''refund'', Amount = - 50, CreatedAt = 6, UpdatedAt = 7\<rparr>]) = 300
   \<and> summaryExpensesHandler \<lparr>marshal = (\<lambda>xs. None), unmarshal = (\<lambda>d. Some (Slice
      [\<lparr>ID = 1, Description = ''coffee'', Amount = 350, CreatedAt = 5, UpdatedAt = 5\<rparr>,
       \<lparr>ID = 2, Description = ''refund'', Amount = - 50, CreatedAt = 6, UpdatedAt = 7\<rparr>]))\<rparr>
       GET \<lparr>disk = Data ''doc'', writing = WriteOk\<rparr>
     = (OkTotal 300, \<lparr>disk = Data ''doc'', writing = WriteOk\<rparr>)"
  using summaryExpenses_sum [of
      "[\<lparr>ID = 1, Description = ''coffee'', Amount = 350, CreatedAt = 5, UpdatedAt = 5\<rparr>,
        \<lparr>ID = 2, Description = ''refund'', Amount = - 50, CreatedAt = 6, UpdatedAt = 7\<rparr>]"
      "\<lparr>marshal = (\<lambda>xs. None), unmarshal = (\<lambda>d. Some (Slice
      [\<lparr>ID = 1, Description = ''coffee'', Amount = 350, CreatedAt = 5, UpdatedAt = 5\<rparr>,
       \<lparr>ID = 2, Description = ''refund'', Amount = - 50, CreatedAt = 6, UpdatedAt = 7\<rparr>]))\<rparr>"
      GET "\<lparr>disk = Data ''doc'', writing = WriteOk\<rparr>"]
  by (simp add: loadExpenses_def summaryExpenses_def)

text \<open>
  Claim C6 as it is written fails at the amounts \<open>2^63 - 1\<close> and 1: their sum is
  \<open>2^63\<close>, and the total reported is \<open>- 2^63\<close>.
\<close>

theorem summaryExpenses_sum_counterexample:
  "sint (summaryExpenses
      [\<lparr>ID = 1, Description = ''a'', Amount = 9223372036854775807, CreatedAt = 0, UpdatedAt = 0\<rparr>,
       \<lparr>ID = 2, Description = ''b'', Amount = 1, CreatedAt = 0, UpdatedAt = 0\<rparr>])
     = - 9223372036854775808
   \<and> (\<Sum>e\<leftarrow>
      [\<lparr>ID = 1, Description = ''a'', Amount = 9223372036854775807, CreatedAt = 0, UpdatedAt = 0\<rparr>,
       \<lparr>ID = 2, Description = ''b'', Amount = 1, CreatedAt = 0, UpdatedAt = 0\<rparr>]. sint (Amount e))
     = 9223372036854775808"
  by (simp add: summaryExpenses_def)

section \<open>An absent file\<close>

text \<open>
  Claim C7, as amended. With no file, \<^verbatim>\<open>loadExpenses\<close> returns the empty collection,
  as a slice that is not nil, and no error. For every handler and every request,
  running on the file system without the file and running on the same file system
  with a document that decodes to that empty slice, as \<^verbatim>\<open>[]\<close> does, give the same
  response, and leave file systems that load alike. With a document that decodes to
  the nil slice, as \<^verbatim>\<open>null\<close> does, the summary, create, update and delete handlers
  still give the response they give without the file, and the list handler does not:
  it answers with the empty slice without the file and with the nil slice with it.
\<close>

theorem absent_is_empty:
  "(disk fs = Absent \<longrightarrow> loadExpenses c fs = Inr (Slice []))
   \<and> (unmarshal c d = Some (Slice []) \<longrightarrow>
        loadExpenses c (fs\<lparr>disk := Absent\<rparr>) = loadExpenses c (fs\<lparr>disk := Data d\<rparr>)
      \<and> fst (listExpensesHandler c m (fs\<lparr>disk := Absent\<rparr>))
          = fst (listExpensesHandler c m (fs\<lparr>disk := Data d\<rparr>))
      \<and> loadExpenses c (snd (listExpensesHandler c m (fs\<lparr>disk := Absent\<rparr>)))
          = loadExpenses c (snd (listExpensesHandler c m (fs\<lparr>disk := Data d\<rparr>)))
      \<and> fst (summaryExpensesHandler c m (fs\<lparr>disk := Absent\<rparr>))
          = fst (summaryExpensesHandler c m (fs\<lparr>disk := Data d\<rparr>))
      \<and> loadExpenses c (snd (summaryExpensesHandler c m (fs\<lparr>disk := Absent\<rparr>)))
          = loadExpenses c (snd (summaryExpensesHandler c m (fs\<lparr>disk := Data d\<rparr>)))
      \<and> fst (addExpenseHandler c t1 t2 m body (fs\<lparr>disk := Absent\<rparr>))
          = fst (addExpenseHandler c t1 t2 m body (fs\<lparr>disk := Data d\<rparr>))
      \<and> loadExpenses c (snd (addExpenseHandler c t1 t2 m body (fs\<lparr>disk := Absent\<rparr>)))
          = loadExpenses c (snd (addExpenseHandler c t1 t2 m body (fs\<lparr>disk := Data d\<rparr>)))
      \<and> fst (updateExpenseHandler c now m idStr body (fs\<lparr>disk := Absent\<rparr>))
          = fst (updateExpenseHandler c now m idStr body (fs\<lparr>disk := Data d\<rparr>))
      \<and> loadExpenses c (snd (updateExpenseHandler c now m idStr body (fs\<lparr>disk := Absent\<rparr>)))
          = loadExpenses c (snd (updateExpenseHandler c now m idStr body (fs\<lparr>disk := Data d\<rparr>)))
      \<and> fst (deleteExpenseHandler c m idStr (fs\<lparr>disk := Absent\<rparr>))
          = fst (deleteExpenseHandler c m idStr (fs\<lparr>disk := Data d\<rparr>))
      \<and> loadExpenses c (snd (deleteExpenseHandler c m idStr (fs\<lparr>disk := Absent\<rparr>)))
          = loadExpenses c (snd (deleteExpenseHandler c m idStr (fs\<lparr>disk := Data d\<rparr>))))
   \<and> (unmarshal c d = Some NilSlice \<longrightarrow>
        fst (summaryExpensesHandler c m (fs\<lparr>disk := Absent\<rparr>))
          = fst (summaryExpensesHandler c m (fs\<lparr>disk := Data d\<rparr>))
      \<and> fst (addExpenseHandler c t1 t2 m body (fs\<lparr>disk := Absent\<rparr>))
          = fst (addExpenseHandler c t1 t2 m body (fs\<lparr>disk := Data d\<rparr>))
      \<and> fst (updateExpenseHandler c now m idStr body (fs\<lparr>disk := Absent\<rparr>))
          = fst (updateExpenseHandler c now m idStr body (fs\<lparr>disk := Data d\<rparr>))
      \<and> fst (deleteExpenseHandler c m idStr (fs\<lparr>disk := Absent\<rparr>))
          = fst (deleteExpenseHandler c m idStr (fs\<lparr>disk := Data d\<rparr>))
      \<and> fst (listExpensesHandler c GET (fs\<lparr>disk := Absent\<rparr>)) = OkList (Slice [])
      \<and> fst (listExpensesHandler c GET (fs\<lparr>disk := Data d\<rparr>)) = OkList NilSlice)"
proof -
  have l0: "disk fs = Absent \<longrightarrow> loadExpenses c fs = Inr (Slice [])"
    by (simp add: loadExpenses_def)
  have ld: "unmarshal c d = Some (Slice []) \<longrightarrow>
        loadExpenses c (fs\<lparr>disk := Absent\<rparr>) = loadExpenses c (fs\<lparr>disk := Data d\<rparr>)"
    by (simp add: loadExpenses_def)
  have lst: "unmarshal c d = Some (Slice []) \<longrightarrow>
        fst (listExpensesHandler c m (fs\<lparr>disk := Absent\<rparr>))
          = fst (listExpensesHandler c m (fs\<lparr>disk := Data d\<rparr>))
      \<and> loadExpenses c (snd (listExpensesHandler c m (fs\<lparr>disk := Absent\<rparr>)))
          = loadExpenses c (snd (listExpensesHandler c m (fs\<lparr>disk := Data d\<rparr>)))"
    by (simp add: listExpensesHandler_def loadExpenses_def)
  have smm: "unmarshal c d = Some (Slice []) \<longrightarrow>
        fst (summaryExpensesHandler c m (fs\<lparr>disk := Absent\<rparr>))
          = fst (summaryExpensesHandler c m (fs\<lparr>disk := Data d\<rparr>))
      \<and> loadExpenses c (snd (summaryExpensesHandler c m (fs\<lparr>disk := Absent\<rparr>)))
          = loadExpenses c (snd (summaryExpensesHandler c m (fs\<lparr>disk := Data d\<rparr>)))"
    by (simp add: summaryExpensesHandler_def loadExpenses_def)
  have add: "unmarshal c d = Some (Slice []) \<longrightarrow>
        fst (addExpenseHandler c t1 t2 m body (fs\<lparr>disk := Absent\<rparr>))
          = fst (addExpenseHandler c t1 t2 m body (fs\<lparr>disk := Data d\<rparr>))
      \<and> loadExpenses c (snd (addExpenseHandler c t1 t2 m body (fs\<lparr>disk := Absent\<rparr>)))
          = loadExpenses c (snd (addExpenseHandler c t1 t2 m body (fs\<lparr>disk := Data d\<rparr>)))"
    by (simp add: addExpenseHandler_def saveExpenses_def loadExpenses_def
          split: option.split prod.split writeResult.split)
  have upd: "unmarshal c d = Some (Slice []) \<longrightarrow>
        fst (updateExpenseHandler c now m idStr body (fs\<lparr>disk := Absent\<rparr>))
          = fst (updateExpenseHandler c now m idStr body (fs\<lparr>disk := Data d\<rparr>))
      \<and> loadExpenses c (snd (updateExpenseHandler c now m idStr body (fs\<lparr>disk := Absent\<rparr>)))
          = loadExpenses c (snd (updateExpenseHandler c now m idStr body (fs\<lparr>disk := Data d\<rparr>)))"
    by (simp add: updateExpenseHandler_def updateLoop_0 loadExpenses_def split: option.split)
  have del: "unmarshal c d = Some (Slice []) \<longrightarrow>
        fst (deleteExpenseHandler c m idStr (fs\<lparr>disk := Absent\<rparr>))
          = fst (deleteExpenseHandler c m idStr (fs\<lparr>disk := Data d\<rparr>))
      \<and> loadExpenses c (snd (deleteExpenseHandler c m idStr (fs\<lparr>disk := Absent\<rparr>)))
          = loadExpenses c (snd (deleteExpenseHandler c m idStr (fs\<lparr>disk := Data d\<rparr>)))"
    by (simp add: deleteExpenseHandler_def deleteLoop_0 loadExpenses_def split: option.split)
  have nsmm: "unmarshal c d = Some NilSlice \<longrightarrow>
        fst (summaryExpensesHandler c m (fs\<lparr>disk := Absent\<rparr>))
          = fst (summaryExpensesHandler c m (fs\<lparr>disk := Data d\<rparr>))"
    by (simp add: summaryExpensesHandler_def loadExpenses_def)
  have nadd: "unmarshal c d = Some NilSlice \<longrightarrow>
        fst (addExpenseHandler c t1 t2 m body (fs\<lparr>disk := Absent\<rparr>))
          = fst (addExpenseHandler c t1 t2 m body (fs\<lparr>disk := Data d\<rparr>))"
    by (simp add: addExpenseHandler_def saveExpenses_def loadExpenses_def
          split: option.split prod.split writeResult.split)
  have nupd: "unmarshal c d = Some NilSlice \<longrightarrow>
        fst (updateExpenseHandler c now m idStr body (fs\<lparr>disk := Absent\<rparr>))
          = fst (updateExpenseHandler c now m idStr body (fs\<lparr>disk := Data d\<rparr>))"
    by (simp add: updateExpenseHandler_def updateLoop_0 loadExpenses_def split: option.split)
  have ndel: "unmarshal c d = Some NilSlice \<longrightarrow>
        fst (deleteExpenseHandler c m idStr (fs\<lparr>disk := Absent\<rparr>))
          = fst (deleteExpenseHandler c m idStr (fs\<lparr>disk := Data d\<rparr>))"
    by (simp add: deleteExpenseHandler_def deleteLoop_0 loadExpenses_def split: option.split)
  have nlst: "unmarshal c d = Some NilSlice \<longrightarrow>
        fst (listExpensesHandler c GET (fs\<lparr>disk := Absent\<rparr>)) = OkList (Slice [])
      \<and> fst (listExpensesHandler c GET (fs\<lparr>disk := Data d\<rparr>)) = OkList NilSlice"
    by (simp add: listExpensesHandler_def loadExpenses_def)
  from l0 ld lst smm add upd del nsmm nadd nupd ndel nlst show ?thesis
    by (intro conjI impI) (erule (1) impE, simp)+
qed

text \<open>
  The theorem at a creation and at a listing, without the file and with a document
  that decodes to the empty slice; and at a summary, without the file and with a
  document that decodes to the nil slice.
\<close>

theorem absent_is_empty_witness:
  "loadExpenses \<lparr>marshal = (\<lambda>s. Some ''doc''), unmarshal = (\<lambda>d. Some (Slice []))\<rparr>
      \<lparr>disk = Absent, writing = WriteOk\<rparr> = Inr (Slice [])
   \<and> fst (addExpenseHandler \<lparr>marshal = (\<lambda>s. Some ''doc''), unmarshal = (\<lambda>d. Some (Slice []))\<rparr>
        1 2 POST
        (Some \<lparr>ID = 0, Description = ''coffee'', Amount = 350, CreatedAt = 0, UpdatedAt = 0\<rparr>)
        \<lparr>disk = Absent, writing = WriteOk\<rparr>)
     = fst (addExpenseHandler \<lparr>marshal = (\<lambda>s. Some ''doc''), unmarshal = (\<lambda>d. Some (Slice []))\<rparr>
        1 2 POST
        (Some \<lparr>ID = 0, Description = ''coffee'', Amount = 350, CreatedAt = 0, UpdatedAt = 0\<rparr>)
        \<lparr>disk = Data ''[]'', writing = WriteOk\<rparr>)
   \<and> fst (listExpensesHandler \<lparr>marshal = (\<lambda>s. Some ''doc''), unmarshal = (\<lambda>d. Some (Slice []))\<rparr>
        GET \<lparr>disk = Absent, writing = WriteOk\<rparr>)
     = fst (listExpensesHandler \<lparr>marshal = (\<lambda>s. Some ''doc''), unmarshal = (\<lambda>d. Some (Slice []))\<rparr>
        GET \<lparr>disk = Data ''[]'', writing = WriteOk\<rparr>)
   \<and> fst (summaryExpensesHandler \<lparr>marshal = (\<lambda>s. Some ''doc''), unmarshal = (\<lambda>d. Some NilSlice)\<rparr>
        GET \<lparr>disk = Absent, writing = WriteOk\<rparr>)
     = fst (summaryExpensesHandler \<lparr>marshal = (\<lambda>s. Some ''doc''), unmarshal = (\<lambda>d. Some NilSlice)\<rparr>
        GET \<lparr>disk = Data ''null'', writing = WriteOk\<rparr>)"
  using absent_is_empty [where fs = "\<lparr>disk = Absent, writing = WriteOk\<rparr>"
      and c = "\<lparr>marshal = (\<lambda>s. Some ''doc''), unmarshal = (\<lambda>d. Some (Slice []))\<rparr>"
      and d = "''[]''" and m = POST and ?t1.0 = 1 and ?t2.0 = 2
      and body = "Some \<lparr>ID = 0, Description = ''coffee'', Amount = 350, CreatedAt = 0, UpdatedAt = 0\<rparr>"]
    absent_is_empty [where fs = "\<lparr>disk = Absent, writing = WriteOk\<rparr>"
      and c = "\<lparr>marshal = (\<lambda>s. Some ''doc''), unmarshal = (\<lambda>d. Some (Slice []))\<rparr>"
      and d = "''[]''" and m = GET]
    absent_is_empty [where fs = "\<lparr>disk = Absent, writing = WriteOk\<rparr>"
      and c = "\<lparr>marshal = (\<lambda>s. Some ''doc''), unmarshal = (\<lambda>d. Some NilSlice)\<rparr>"
      and d = "''null''" and m = GET]
  by simp

text \<open>
  Claim C7 as it is written fails at the list handler and a stored \<^verbatim>\<open>null\<close>, which
  decodes to the nil slice: that is an empty collection too, and the handler answers
  with the nil slice, written \<^verbatim>\<open>null\<close>, where without the file it answers with the
  empty slice, written \<^verbatim>\<open>[]\<close>.
\<close>

theorem absent_is_empty_counterexample:
  "loadExpenses \<lparr>marshal = (\<lambda>s. Some ''doc''), unmarshal = (\<lambda>d. Some NilSlice)\<rparr>
      \<lparr>disk = Data ''null'', writing = WriteOk\<rparr> = Inr NilSlice
   \<and> elems (NilSlice :: Expense slice) = []
   \<and> fst (listExpensesHandler \<lparr>marshal = (\<lambda>s. Some ''doc''), unmarshal = (\<lambda>d. Some NilSlice)\<rparr>
        GET \<lparr>disk = Data ''null'', writing = WriteOk\<rparr>) = OkList NilSlice
   \<and> fst (listExpensesHandler \<lparr>marshal = (\<lambda>s. Some ''doc''), unmarshal = (\<lambda>d. Some NilSlice)\<rparr>
        GET \<lparr>disk = Absent, writing = WriteOk\<rparr>) = OkList (Slice [])
   \<and> OkList NilSlice \<noteq> OkList (Slice [])"
  by (simp add: loadExpenses_def listExpensesHandler_def)

section \<open>What a creation takes from its payload\<close>

text \<open>
  Claim C8, as amended. The identifier, creation time and update time that a payload
  carries do not reach the result: the created record has the identifier computed
  from the loaded collection and the payload's description and amount. Its creation
  time is the first and its update time the second of the two clock readings that
  the handler takes, so the two times are equal exactly when the two readings are.
  The handler's answer is the same whatever the payload carries in those three
  fields, and a record it returns as created is the payload with the three fields
  overwritten in this way.
\<close>

theorem create_overwrites_payload:
  "addExpense t1 t2 (p\<lparr>ID := i, CreatedAt := a, UpdatedAt := b\<rparr>) xs = addExpense t1 t2 p xs
   \<and> ID (fst (addExpense t1 t2 p xs)) = generateUniqueID xs
   \<and> CreatedAt (fst (addExpense t1 t2 p xs)) = t1
   \<and> UpdatedAt (fst (addExpense t1 t2 p xs)) = t2
   \<and> (CreatedAt (fst (addExpense t1 t2 p xs)) = UpdatedAt (fst (addExpense t1 t2 p xs))
        \<longleftrightarrow> t1 = t2)
   \<and> Description (fst (addExpense t1 t2 p xs)) = Description p
   \<and> Amount (fst (addExpense t1 t2 p xs)) = Amount p
   \<and> addExpenseHandler c t1 t2 m (Some (p\<lparr>ID := i, CreatedAt := a, UpdatedAt := b\<rparr>)) fs
       = addExpenseHandler c t1 t2 m (Some p) fs
   \<and> (\<forall>e fs'. addExpenseHandler c t1 t2 m (Some p) fs = (Created e, fs') \<longrightarrow>
         (\<exists>s. loadExpenses c fs = Inr s
            \<and> e = p\<lparr>ID := generateUniqueID (elems s), CreatedAt := t1, UpdatedAt := t2\<rparr>))"
proof -
  have ov: "addExpense t1 t2 (p\<lparr>ID := i, CreatedAt := a, UpdatedAt := b\<rparr>) xs = addExpense t1 t2 p xs"
    for xs by (simp add: addExpense_def Let_def)
  have h: "addExpenseHandler c t1 t2 m (Some (p\<lparr>ID := i, CreatedAt := a, UpdatedAt := b\<rparr>)) fs
       = addExpenseHandler c t1 t2 m (Some p) fs"
    by (simp add: addExpenseHandler_def ov split: sum.split)
  have r: "\<exists>s. loadExpenses c fs = Inr s
            \<and> e = p\<lparr>ID := generateUniqueID (elems s), CreatedAt := t1, UpdatedAt := t2\<rparr>"
    if "addExpenseHandler c t1 t2 m (Some p) fs = (Created e, fs')" for e fs'
    using that
    by (auto simp: addExpenseHandler_def addExpense_def Let_def
             split: if_splits sum.splits prod.splits option.splits)
  from ov h r show ?thesis by (simp add: addExpense_fst)
qed

text \<open>
  The theorem at a payload carrying the identifier 77 and the times 8 and 9, with
  both clock readings 7.
\<close>

theorem create_overwrites_payload_witness:
  "addExpenseHandler \<lparr>marshal = (\<lambda>s. Some ''doc''), unmarshal = (\<lambda>d. Some (Slice []))\<rparr> 7 7 POST
        (Some \<lparr>ID = 77, Description = ''coffee'', Amount = 350, CreatedAt = 8, UpdatedAt = 9\<rparr>)
        \<lparr>disk = Absent, writing = WriteOk\<rparr>
     = (Created \<lparr>ID = 1, Description = ''coffee'', Amount = 350, CreatedAt = 7, UpdatedAt = 7\<rparr>,
        \<lparr>disk = Data ''doc'', writing = WriteOk\<rparr>)"
  using create_overwrites_payload
    [where c = "\<lparr>marshal = (\<lambda>s. Some ''doc''), unmarshal = (\<lambda>d. Some (Slice []))\<rparr>"
      and ?t1.0 = 7 and ?t2.0 = 7 and m = POST
      and p = "\<lparr>ID = 77, Description = ''coffee'', Amount = 350, CreatedAt = 8, UpdatedAt = 9\<rparr>"
      and fs = "\<lparr>disk = Absent, writing = WriteOk\<rparr>"
      and xs = "[]" and i = 0 and a = 0 and b = 0]
  by (simp add: addExpenseHandler_def addExpense_def loadExpenses_def saveExpenses_def
        generateUniqueID_def Let_def)

text \<open>
  Claim C8 as it is written fails where it sets both times to one now: the handler
  reads the clock once for each, and with the readings 1 and 2 the record it returns
  has the creation time 1 and the update time 2.
\<close>

theorem create_overwrites_payload_counterexample:
  "addExpenseHandler \<lparr>marshal = (\<lambda>s. Some ''doc''), unmarshal = (\<lambda>d. Some (Slice []))\<rparr> 1 2 POST
        (Some \<lparr>ID = 77, Description = ''coffee'', Amount = 350, CreatedAt = 8, UpdatedAt = 9\<rparr>)
        \<lparr>disk = Absent, writing = WriteOk\<rparr>
     = (Created \<lparr>ID = 1, Description = ''coffee'', Amount = 350, CreatedAt = 1, UpdatedAt = 2\<rparr>,
        \<lparr>disk = Data ''doc'', writing = WriteOk\<rparr>)
   \<and> CreatedAt \<lparr>ID = 1, Description = ''coffee'', Amount = 350, CreatedAt = 1, UpdatedAt = 2\<rparr>
     \<noteq> UpdatedAt \<lparr>ID = 1, Description = ''coffee'', Amount = 350, CreatedAt = 1, UpdatedAt = 2\<rparr>"
  by (simp add: addExpenseHandler_def addExpense_def loadExpenses_def saveExpenses_def
        generateUniqueID_def Let_def)

section \<open>Saving and loading again\<close>

text \<open>
  After a successful save, loading returns what the codec decodes from what it
  encoded. Whether that is the saved collection is a property of \<^verbatim>\<open>encoding/json\<close>
  and of the JSON form of \<^verbatim>\<open>time.Time\<close>, which the model leaves open. A write that
  fails after the open leaves a prefix of the encoding, and a write that cannot open
  the file leaves the file.
\<close>

lemma load_after_save:
  "marshal c s = Some d \<Longrightarrow> writing fs = WriteOk \<Longrightarrow>
   fst (saveExpenses c s fs) = None
   \<and> loadExpenses c (snd (saveExpenses c s fs))
       = (case unmarshal c d of None \<Rightarrow> Inl MalformedStore | Some s' \<Rightarrow> Inr s')"
  by (simp add: saveExpenses_def loadExpenses_def)

lemma failed_save:
  "marshal c s = Some d \<Longrightarrow>
   (writing fs = OpenFails \<longrightarrow> saveExpenses c s fs = (Some IOError, fs))
   \<and> (writing fs = WriteFails n \<longrightarrow>
        saveExpenses c s fs = (Some IOError, fs\<lparr>disk := Data (take n d)\<rparr>))"
  by (simp add: saveExpenses_def)

end
